theory Spec2Isabelle
  imports Complex_Main
begin

section \<open>DUY Energy: the accumulator of app.js\<close>

text \<open>
  The script app.js keeps one global object \<open>state\<close>, polls a Shelly device for its
  instantaneous power, integrates the readings into kWh and splits them into a peak
  (``pico'') and an off-peak (``llano'') total.

  Conventions of the embedding.
  \<^item> A JavaScript Number is modelled as an exact \<open>real\<close>: rounding of IEEE doubles, NaN and
    the infinities are not modelled. Timestamps (\<open>Date.now()\<close>) are integers, in
    milliseconds since the epoch.
  \<^item> The global \<open>state\<close> is a record that every function takes and returns. The fields
    have the types that the script itself writes: \<open>lastTimestamp\<close> and \<open>day\<close> are
    \<open>null\<close> (\<open>None\<close>) or a value.
  \<^item> What the script reads from its host (the clock, the time zone, whether
    \<open>localStorage\<close> throws) is a record \<open>env\<close> passed to each call.
  \<^item> The effects (console, \<open>localStorage\<close>, the metric cards) are fields of a record
    \<open>world\<close>. The page is assumed to contain the four cards, so that \<open>updateMetrics\<close>
    does not throw.
  \<^item> What comes from outside (the stored item, the body of a response) is modelled
    through the view that the script takes of it, with values of the types that the
    script expects: a stored number is a number, a reported power is a number or is
    missing.
\<close>

subsection \<open>The state object (app.js, lines 16--22)\<close>

record state =
  lastTimestamp :: "int option"
  lastPower :: real
  picoEnergy :: real
  llanoEnergy :: real
  day :: "string option"

definition initial_state :: state where
  "initial_state =
     \<lparr>lastTimestamp = None, lastPower = 0, picoEnergy = 0, llanoEnergy = 0, day = None\<rparr>"

subsection \<open>The host: clock, calendar and time zone\<close>

text \<open>
  \<open>handleNewPowerMeasurement\<close> reads the clock twice: \<open>Date.now()\<close> gives \<open>now\<close>, and
  \<open>new Date()\<close> gives the instant whose UTC date is \<open>today\<close>. \<open>localTZA t\<close> is the offset
  in milliseconds of local time from UTC at the instant \<open>t\<close>, which \<open>getHours\<close> uses.
  \<open>storage_throws\<close> says whether an access to \<open>localStorage\<close> throws in this call.

  The script takes the date from \<open>toISOString\<close>, which prints UTC, and the hour from
  \<open>getHours\<close>, which is local: the day of the state changes at midnight UTC, and the
  tariff window is in local time.
\<close>

record env =
  now_ms :: int
  date_ms :: int
  localTZA :: "int \<Rightarrow> int"
  storage_throws :: bool

text \<open>Two decimal digits and more: the zero-padded decimal numeral of a given width.\<close>

definition digit_char :: "nat \<Rightarrow> char" where
  "digit_char n = ''0123456789'' ! (n mod 10)"

primrec pad_dec :: "nat \<Rightarrow> nat \<Rightarrow> string" where
  "pad_dec 0 n = []"
| "pad_dec (Suc w) n = pad_dec w (n div 10) @ [digit_char n]"

text \<open>
  The proleptic Gregorian date (year, month, day of month) of a day number counted from
  1970-01-01, as \<open>Date.prototype.toISOString\<close> prints it.
\<close>

definition civil_from_days :: "int \<Rightarrow> int \<times> int \<times> int" where
  "civil_from_days days =
     (let z = days + 719468;
          era = z div 146097;
          doe = z mod 146097;
          yoe = (doe - doe div 1460 + doe div 36524 - doe div 146096) div 365;
          doy = doe - (365 * yoe + yoe div 4 - yoe div 100);
          mp = (5 * doy + 2) div 153;
          d = doy - (153 * mp + 2) div 5 + 1;
          m = (if mp < 10 then mp + 3 else mp - 9);
          y = yoe + era * 400
      in (if m \<le> 2 then y + 1 else y, m, d))"

text \<open>
  \<open>new Date(t).toISOString().slice(0, 10)\<close>. Years from 0 to 9999 print with four
  digits; the others print with a sign and six digits, of which the slice keeps the
  first ten characters.
\<close>

definition year_string :: "int \<Rightarrow> string" where
  "year_string y =
     (if 0 \<le> y \<and> y \<le> 9999 then pad_dec 4 (nat y)
      else (if y < 0 then ''-'' else ''+'') @ pad_dec 6 (nat \<bar>y\<bar>))"

definition toISODate :: "int \<Rightarrow> string" where
  "toISODate t =
     (case civil_from_days (t div 86400000) of
        (y, m, d) \<Rightarrow>
          take 10 (year_string y @ ''-'' @ pad_dec 2 (nat m) @ ''-'' @ pad_dec 2 (nat d)))"

text \<open>\<open>new Date(t).getHours()\<close>: the hour of the day in local time.\<close>

definition getHours :: "env \<Rightarrow> int \<Rightarrow> int" where
  "getHours e t = ((t + localTZA e t) div 3600000) mod 24"

text \<open>JavaScript truthiness of \<open>state.day\<close>: \<open>null\<close> and the empty string are falsy.\<close>

definition truthy :: "string option \<Rightarrow> bool" where
  "truthy d = (case d of None \<Rightarrow> False | Some s \<Rightarrow> s \<noteq> [])"

subsection \<open>The three steps of handleNewPowerMeasurement on the state (lines 89--116)\<close>

text \<open>Lines 90--97: reset the daily counters if a new day has started, then set the day.\<close>

definition resetIfNewDay :: "string \<Rightarrow> state \<Rightarrow> state" where
  "resetIfNewDay today s =
     (let s1 = (if truthy (day s) \<and> day s \<noteq> Some today
                then s\<lparr>picoEnergy := 0, llanoEnergy := 0, lastTimestamp := None\<rparr>
                else s)
      in s1\<lparr>day := Some today\<rparr>)"

text \<open>Lines 100--105: the energy of the elapsed period, from the previous power.\<close>

definition energyDelta :: "state \<Rightarrow> int \<Rightarrow> int \<Rightarrow> real" where
  "energyDelta s now t =
     (let elapsedMs = now - t;
          elapsedHours = real_of_int elapsedMs / (1000 * 60 * 60)
      in (lastPower s * elapsedHours) / 1000)"

text \<open>Lines 98--113: integrate if there is a previous timestamp.\<close>

definition integrate :: "env \<Rightarrow> state \<Rightarrow> state" where
  "integrate e s =
     (case lastTimestamp s of
        None \<Rightarrow> s
      | Some t \<Rightarrow>
          (let hour = getHours e t in
           if hour \<ge> 17 \<and> hour < 21
           then s\<lparr>picoEnergy := picoEnergy s + energyDelta s (now_ms e) t\<rparr>
           else s\<lparr>llanoEnergy := llanoEnergy s + energyDelta s (now_ms e) t\<rparr>))"

text \<open>Lines 114--116: record the latest measurement.\<close>

definition updateLast :: "env \<Rightarrow> real \<Rightarrow> state \<Rightarrow> state" where
  "updateLast e pw s = s\<lparr>lastTimestamp := Some (now_ms e), lastPower := pw\<rparr>"

definition handle_state :: "env \<Rightarrow> real \<Rightarrow> state \<Rightarrow> state" where
  "handle_state e pw s =
     updateLast e pw (integrate e (resetIfNewDay (toISODate (date_ms e)) s))"

subsection \<open>The world: state, localStorage, metric cards, console\<close>

text \<open>
  The item stored under the key \<open>duyEnergyData\<close>, seen through \<open>JSON.parse\<close>. A snapshot
  is a parsed object: each of the five keys is absent (\<open>None\<close>) or has a value, and the
  values have the types that \<open>saveState\<close> writes. \<open>JsonOther\<close> is any parsed value that is
  neither \<open>null\<close> nor an object with a \<open>day\<close> property: reading \<open>.day\<close> from it gives
  \<open>undefined\<close>.
\<close>

record snapshot =
  snap_lastTimestamp :: "int option option"
  snap_lastPower :: "real option"
  snap_picoEnergy :: "real option"
  snap_llanoEnergy :: "real option"
  snap_day :: "string option option"

datatype item = Absent | EmptyText | Unparseable | JsonNull | JsonOther | JsonObject snapshot

datatype log_entry = Warn string | Error string

text \<open>The numbers that \<open>updateMetrics\<close> hands to \<open>toFixed\<close> for the four cards.\<close>

record metrics =
  card_total :: real
  card_pico :: real
  card_llano :: real
  card_indice :: real

record world =
  acc :: state
  storage :: item
  display :: "metrics option"
  console :: "log_entry list"

definition initial_world :: "item \<Rightarrow> world" where
  "initial_world it = \<lparr>acc = initial_state, storage = it, display = None, console = []\<rparr>"

text \<open>\<open>Object.assign(state, parsed)\<close>: every key of the snapshot overwrites the field.\<close>

definition assign :: "state \<Rightarrow> snapshot \<Rightarrow> state" where
  "assign s p =
     \<lparr>lastTimestamp = (case snap_lastTimestamp p of None \<Rightarrow> lastTimestamp s | Some v \<Rightarrow> v),
      lastPower = (case snap_lastPower p of None \<Rightarrow> lastPower s | Some v \<Rightarrow> v),
      picoEnergy = (case snap_picoEnergy p of None \<Rightarrow> picoEnergy s | Some v \<Rightarrow> v),
      llanoEnergy = (case snap_llanoEnergy p of None \<Rightarrow> llanoEnergy s | Some v \<Rightarrow> v),
      day = (case snap_day p of None \<Rightarrow> day s | Some v \<Rightarrow> v)\<rparr>"

text \<open>\<open>JSON.stringify(state)\<close>, seen through \<open>JSON.parse\<close>: all five keys are present.\<close>

definition stringify :: "state \<Rightarrow> snapshot" where
  "stringify s =
     \<lparr>snap_lastTimestamp = Some (lastTimestamp s), snap_lastPower = Some (lastPower s),
      snap_picoEnergy = Some (picoEnergy s), snap_llanoEnergy = Some (llanoEnergy s),
      snap_day = Some (day s)\<rparr>"

definition warn :: "string \<Rightarrow> world \<Rightarrow> world" where
  "warn msg w = w\<lparr>console := console w @ [Warn msg]\<rparr>"

text \<open>
  Lines 25--39. An exception anywhere in the \<open>try\<close> block (the storage throws, the text
  does not parse, or \<open>parsed\<close> is \<open>null\<close> so that \<open>parsed.day\<close> throws) is caught and
  logged as a warning.
\<close>

definition loadState :: "env \<Rightarrow> world \<Rightarrow> world" where
  "loadState e w =
     (if storage_throws e then warn ''No stored state or failed to parse localStorage:'' w
      else case storage w of
        Absent \<Rightarrow> w
      | EmptyText \<Rightarrow> w
      | Unparseable \<Rightarrow> warn ''No stored state or failed to parse localStorage:'' w
      | JsonNull \<Rightarrow> warn ''No stored state or failed to parse localStorage:'' w
      | JsonOther \<Rightarrow> w
      | JsonObject parsed \<Rightarrow>
          (let today = toISODate (date_ms e) in
           if snap_day parsed = Some (Some today)
           then w\<lparr>acc := assign (acc w) parsed\<rparr>
           else w))"

text \<open>Lines 42--48.\<close>

definition saveState :: "env \<Rightarrow> world \<Rightarrow> world" where
  "saveState e w =
     (if storage_throws e then warn ''Failed to save state:'' w
      else w\<lparr>storage := JsonObject (stringify (acc w))\<rparr>)"

text \<open>
  Lines 51--62. The cards show \<open>total\<close>, \<open>picoEnergy\<close> and \<open>llanoEnergy\<close> with three
  decimals and \<open>indice\<close> with one; the model keeps the numbers before \<open>toFixed\<close>.
\<close>

definition updateMetrics :: "world \<Rightarrow> world" where
  "updateMetrics w =
     (let total = picoEnergy (acc w) + llanoEnergy (acc w);
          indice = (if total > 0 then (llanoEnergy (acc w) / total) * 100 else 0)
      in w\<lparr>display := Some \<lparr>card_total = total, card_pico = picoEnergy (acc w),
                             card_llano = llanoEnergy (acc w), card_indice = indice\<rparr>\<rparr>)"

text \<open>Lines 88--120: the three steps on the state, then persist and update the cards.\<close>

definition handleNewPowerMeasurement :: "env \<Rightarrow> real \<Rightarrow> world \<Rightarrow> world" where
  "handleNewPowerMeasurement e pw w =
     updateMetrics (saveState e (w\<lparr>acc := handle_state e pw (acc w)\<rparr>))"

subsection \<open>Polling (lines 65--85 and 152--153)\<close>

text \<open>
  What one poll gets from the network. \<open>FetchRejects\<close>: \<open>fetch\<close> fails (network error).
  \<open>BodyNotJson\<close>: \<open>response.json()\<close> fails (malformed response). \<open>Body ms\<close>: the body
  parses, and \<open>ms\<close> is \<open>data?.data?.device_status?.meters\<close> when that is an array
  (\<open>None\<close> when it is anything else or missing). An element of the array is \<open>null\<close>
  (\<open>MeterNull\<close>) or a value whose \<open>power\<close> is a number (\<open>Meter (Some p)\<close>) or is missing or
  falsy (\<open>Meter None\<close>).
\<close>

datatype meter = MeterNull | Meter "real option"

datatype response = FetchRejects | BodyNotJson | Body "meter list option"

definition log_error :: "string \<Rightarrow> world \<Rightarrow> world" where
  "log_error msg w = w\<lparr>console := console w @ [Error msg]\<rparr>"

text \<open>
  The power that lines 75--80 extract, or the exception that reading \<open>.power\<close> of
  \<open>null\<close> raises (\<open>None\<close>).
\<close>

definition extract_power :: "meter list option \<Rightarrow> real option" where
  "extract_power meters =
     (case meters of
        None \<Rightarrow> Some 0
      | Some [] \<Rightarrow> Some 0
      | Some (MeterNull # _) \<Rightarrow> None
      | Some (Meter None # _) \<Rightarrow> Some 0
      | Some (Meter (Some p) # _) \<Rightarrow> Some p)"

definition getShellyStatus :: "env \<Rightarrow> response \<Rightarrow> world \<Rightarrow> world" where
  "getShellyStatus e r w =
     (case r of
        FetchRejects \<Rightarrow> log_error ''Error fetching Shelly status:'' w
      | BodyNotJson \<Rightarrow> log_error ''Error fetching Shelly status:'' w
      | Body meters \<Rightarrow>
          (case extract_power meters of
             None \<Rightarrow> log_error ''Error fetching Shelly status:'' w
           | Some pw \<Rightarrow> handleNewPowerMeasurement e pw w))"

text \<open>
  \<open>init\<close> loads the state, fills the cards, polls once and then polls on every tick of
  \<open>setInterval\<close>, whatever the earlier polls did. The host is single-threaded: what a
  poll does after its response has arrived runs to completion before the next event. A
  run of the timer is the list of what each poll found, in the order of arrival.
\<close>

fun polling :: "(env \<times> response) list \<Rightarrow> world \<Rightarrow> world" where
  "polling [] w = w"
| "polling ((e, r) # rest) w = polling rest (getShellyStatus e r w)"

definition init :: "env \<Rightarrow> (env \<times> response) list \<Rightarrow> world \<Rightarrow> world" where
  "init e polls w = polling polls (updateMetrics (loadState e w))"

text \<open>A sequence of calls of \<open>handleNewPowerMeasurement\<close>, each with its host and power.\<close>

fun handle_all :: "(env \<times> real) list \<Rightarrow> world \<Rightarrow> world" where
  "handle_all [] w = w"
| "handle_all ((e, pw) # rest) w = handle_all rest (handleNewPowerMeasurement e pw w)"

text \<open>
  The condition of line 92: the stored day is truthy and is not today's date.
\<close>

definition new_day :: "env \<Rightarrow> state \<Rightarrow> bool" where
  "new_day e s = (truthy (day s) \<and> day s \<noteq> Some (toISODate (date_ms e)))"

subsection \<open>Concrete hosts and worlds for the examples\<close>

text \<open>
  \<open>host_at t\<close>: a host in the UTC time zone whose two clock readings both give \<open>t\<close>, with
  a working \<open>localStorage\<close>. \<open>running t p pico llano\<close>: a world whose last sample came at
  \<open>t\<close> with power \<open>p\<close>, with the given totals for the day of \<open>t\<close>. \<open>evening\<close>: four
  samples of 1970-01-01, at 17:00, 17:30, 21:30 and 22:30. \<open>negative_reading\<close>: the device
  reports -1000 W at 00:00, and the next sample comes at 01:00. \<open>clock_set_back\<close>: 1000 W
  at 01:00, and the clock reads 00:00 at the next sample. \<open>stale_item\<close> and \<open>fresh_item\<close>:
  what \<open>saveState\<close> stored on 1969-12-31 and on 1970-01-01.

  \<open>host_utc_minus3 t\<close>: the same host in a time zone three hours behind UTC.
  \<open>local_evening\<close>: in that zone, 1000 W at 21:00 and a sample at 21:30 local time on
  1970-01-01, which is 00:00 and 00:30 UTC on 1970-01-02. \<open>local_midnight\<close>: in that
  zone, 1500 W at 23:50 local time on 1970-01-01 and a sample at 00:10 local time on
  1970-01-02, which is 02:50 and 03:10 UTC on 1970-01-02.
\<close>

definition host_at :: "int \<Rightarrow> env" where
  "host_at t = \<lparr>now_ms = t, date_ms = t, localTZA = (\<lambda>_. 0), storage_throws = False\<rparr>"


definition running :: "int \<Rightarrow> real \<Rightarrow> real \<Rightarrow> real \<Rightarrow> world" where
  "running t p pico llano =
     \<lparr>acc = \<lparr>lastTimestamp = Some t, lastPower = p, picoEnergy = pico, llanoEnergy = llano,
             day = Some (toISODate t)\<rparr>,
      storage = Absent, display = None, console = []\<rparr>"

definition evening :: "(env \<times> real) list" where
  "evening = [(host_at 61200000, 1000), (host_at 63000000, 500), (host_at 77400000, 2000),
              (host_at 81000000, 0)]"

definition negative_reading :: "(env \<times> real) list" where
  "negative_reading = [(host_at 0, - 1000), (host_at 3600000, 0)]"

definition clock_set_back :: "(env \<times> real) list" where
  "clock_set_back = [(host_at 3600000, 1000), (host_at 0, 0)]"





subsection \<open>The per-interval deltas of the specification\<close>

text \<open>
  From the specification (section 4.1, step 3, and section 8), not from the code: over a
  sequence of samples, each interval between two consecutive samples has the energy
  delta \<open>lastPower (W) \<times> elapsedHours / 1000\<close>, with the power of the earlier sample
  held over the interval. A sample is the pair of its time (ms) and its power (W).
\<close>

fun spec_interval_deltas :: "(int \<times> real) list \<Rightarrow> real list" where
  "spec_interval_deltas [] = []"
| "spec_interval_deltas [x] = []"
| "spec_interval_deltas ((t0, p0) # (t1, p1) # rest) =
     (p0 * (real_of_int (t1 - t0) / 3600000) / 1000) # spec_interval_deltas ((t1, p1) # rest)"

text \<open>The sample that a call hands to the accumulator: the reading of \<open>Date.now()\<close> and the power.\<close>

definition sample_of :: "env \<times> real \<Rightarrow> int \<times> real" where
  "sample_of x = (now_ms (fst x), snd x)"

text \<open>The sum of the two totals (the \<open>total\<close> of line 52).\<close>

definition total :: "world \<Rightarrow> real" where
  "total w = picoEnergy (acc w) + llanoEnergy (acc w)"

subsection \<open>The calendar and the printed date, independently of the code\<close>














section \<open>Properties\<close>

subsection \<open>Helper lemmas\<close>

lemma acc_updateMetrics: "acc (updateMetrics w) = acc w"
  by (simp add: updateMetrics_def Let_def)

lemma acc_saveState: "acc (saveState e w) = acc w"
  by (simp add: saveState_def warn_def)

lemma acc_handle: "acc (handleNewPowerMeasurement e pw w) = handle_state e pw (acc w)"
  by (simp add: handleNewPowerMeasurement_def acc_updateMetrics acc_saveState)

lemma day_handle_state: "day (handle_state e pw s) = Some (toISODate (date_ms e))"
  by (simp add: handle_state_def updateLast_def integrate_def resetIfNewDay_def Let_def
      split: option.split)

lemma reset_same_day:
  "\<not> new_day e s \<Longrightarrow> resetIfNewDay (toISODate (date_ms e)) s = s\<lparr>day := Some (toISODate (date_ms e))\<rparr>"
  by (auto simp: resetIfNewDay_def new_day_def)

lemma reset_new_day:
  "new_day e s \<Longrightarrow> resetIfNewDay (toISODate (date_ms e)) s =
     s\<lparr>picoEnergy := 0, llanoEnergy := 0, lastTimestamp := None, day := Some (toISODate (date_ms e))\<rparr>"
  by (simp add: resetIfNewDay_def new_day_def)

lemma handle_state_integrates:
  assumes "lastTimestamp s = Some t" and "\<not> new_day e s"
  shows "handle_state e pw s =
     (if 17 \<le> getHours e t \<and> getHours e t < 21
      then s\<lparr>picoEnergy := picoEnergy s + energyDelta s (now_ms e) t,
             day := Some (toISODate (date_ms e)), lastTimestamp := Some (now_ms e), lastPower := pw\<rparr>
      else s\<lparr>llanoEnergy := llanoEnergy s + energyDelta s (now_ms e) t,
             day := Some (toISODate (date_ms e)), lastTimestamp := Some (now_ms e), lastPower := pw\<rparr>)"
  using assms
  by (simp add: handle_state_def reset_same_day integrate_def updateLast_def energyDelta_def Let_def)

lemma handle_state_first:
  assumes "lastTimestamp s = None"
  shows "handle_state e pw s =
     (resetIfNewDay (toISODate (date_ms e)) s)\<lparr>lastTimestamp := Some (now_ms e), lastPower := pw\<rparr>"
proof -
  have "lastTimestamp (resetIfNewDay (toISODate (date_ms e)) s) = None"
    using assms by (simp add: resetIfNewDay_def Let_def)
  then show ?thesis
    by (simp add: handle_state_def integrate_def updateLast_def)
qed

lemma handle_state_new_day:
  assumes "new_day e s"
  shows "handle_state e pw s =
     s\<lparr>picoEnergy := 0, llanoEnergy := 0, day := Some (toISODate (date_ms e)),
       lastTimestamp := Some (now_ms e), lastPower := pw\<rparr>"
  using assms
  by (simp add: handle_state_def reset_new_day integrate_def updateLast_def)

lemma sample_of_pair: "sample_of (e, pw) = (now_ms e, pw)"
  by (simp add: sample_of_def)

lemma nonneg_step:
  assumes "0 \<le> picoEnergy s" "0 \<le> llanoEnergy s" "0 \<le> lastPower s"
    and "\<forall>t. lastTimestamp s = Some t \<longrightarrow> t \<le> now_ms e"
  shows "0 \<le> picoEnergy (handle_state e pw s) \<and> 0 \<le> llanoEnergy (handle_state e pw s)"
proof (cases "lastTimestamp s")
  case None
  then show ?thesis
    using assms by (simp add: handle_state_first resetIfNewDay_def Let_def)
next
  case (Some t)
  show ?thesis
  proof (cases "new_day e s")
    case True
    then show ?thesis by (simp add: handle_state_new_day)
  next
    case False
    have "t \<le> now_ms e" using assms(4) Some by simp
    then have "0 \<le> energyDelta s (now_ms e) t"
      using assms(3) by (simp add: energyDelta_def Let_def)
    then show ?thesis
      using assms(1,2) by (simp add: handle_state_integrates [OF Some False])
  qed
qed

lemma last_after_handle_state:
  "lastTimestamp (handle_state e pw s) = Some (now_ms e) \<and> lastPower (handle_state e pw s) = pw"
  by (simp add: handle_state_def updateLast_def)

lemma nonneg_all:
  assumes "0 \<le> picoEnergy (acc w)" "0 \<le> llanoEnergy (acc w)" "0 \<le> lastPower (acc w)"
    and "\<forall>t. lastTimestamp (acc w) = Some t \<longrightarrow> (\<forall>x \<in> set samples. t \<le> now_ms (fst x))"
    and "\<forall>x \<in> set samples. 0 \<le> snd x"
    and "sorted (map (\<lambda>x. now_ms (fst x)) samples)"
  shows "0 \<le> picoEnergy (acc (handle_all samples w)) \<and> 0 \<le> llanoEnergy (acc (handle_all samples w))"
  using assms
proof (induction samples arbitrary: w)
  case Nil
  then show ?case by simp
next
  case (Cons x rest)
  obtain e pw where x: "x = (e, pw)" by (cases x)
  let ?w = "handleNewPowerMeasurement e pw w"
  have first: "\<forall>t. lastTimestamp (acc w) = Some t \<longrightarrow> t \<le> now_ms e"
    using Cons.prems(4) x by simp
  have step: "0 \<le> picoEnergy (acc ?w) \<and> 0 \<le> llanoEnergy (acc ?w)"
    using nonneg_step [OF Cons.prems(1-3) first] by (simp add: acc_handle)
  have lp: "0 \<le> lastPower (acc ?w)"
    using Cons.prems(5) x by (simp add: acc_handle last_after_handle_state)
  have lt: "\<forall>t. lastTimestamp (acc ?w) = Some t \<longrightarrow> (\<forall>y \<in> set rest. t \<le> now_ms (fst y))"
    using Cons.prems(6) x by (simp add: acc_handle last_after_handle_state)
  have "0 \<le> picoEnergy (acc (handle_all rest ?w)) \<and> 0 \<le> llanoEnergy (acc (handle_all rest ?w))"
    using Cons.IH [of ?w] step lp lt Cons.prems(5,6) by simp
  then show ?case by (simp add: x)
qed

lemma same_day_total:
  assumes "lastTimestamp (acc w) = Some t0" and "day (acc w) = Some d"
    and "\<forall>x \<in> set samples. toISODate (date_ms (fst x)) = d"
  shows "total (handle_all samples w) =
         total w + sum_list (spec_interval_deltas ((t0, lastPower (acc w)) # map sample_of samples))"
  using assms
proof (induction samples arbitrary: w t0)
  case Nil
  then show ?case by simp
next
  case (Cons x rest)
  obtain e pw where x: "x = (e, pw)" by (cases x)
  let ?w = "handleNewPowerMeasurement e pw w"
  have today: "toISODate (date_ms e) = d"
    using Cons.prems(3) x by simp
  have same: "\<not> new_day e (acc w)"
    using Cons.prems(2) today by (simp add: new_day_def)
  note step = handle_state_integrates [OF Cons.prems(1) same, of pw]
  have t: "total ?w = total w + lastPower (acc w) * (real_of_int (now_ms e - t0) / 3600000) / 1000"
    by (simp add: total_def acc_handle step energyDelta_def Let_def)
  have lt: "lastTimestamp (acc ?w) = Some (now_ms e)" and lp: "lastPower (acc ?w) = pw"
    by (simp_all add: acc_handle last_after_handle_state)
  have dy: "day (acc ?w) = Some d"
    by (simp add: acc_handle day_handle_state today)
  have "total (handle_all rest ?w) =
        total ?w + sum_list (spec_interval_deltas ((now_ms e, pw) # map sample_of rest))"
    using Cons.IH [OF lt dy] Cons.prems(3) lp by simp
  then show ?case
    by (simp add: x t sample_of_pair)
qed

lemma handle_ignores_console:
  assumes "acc w = acc w'" "storage w = storage w'" "display w = display w'"
  shows "acc (handleNewPowerMeasurement e pw w) = acc (handleNewPowerMeasurement e pw w')
       \<and> storage (handleNewPowerMeasurement e pw w) = storage (handleNewPowerMeasurement e pw w')
       \<and> display (handleNewPowerMeasurement e pw w) = display (handleNewPowerMeasurement e pw w')"
  using assms
  by (simp add: handleNewPowerMeasurement_def updateMetrics_def saveState_def warn_def Let_def)

lemma getShellyStatus_ignores_console:
  assumes "acc w = acc w'" "storage w = storage w'" "display w = display w'"
  shows "acc (getShellyStatus e r w) = acc (getShellyStatus e r w')
       \<and> storage (getShellyStatus e r w) = storage (getShellyStatus e r w')
       \<and> display (getShellyStatus e r w) = display (getShellyStatus e r w')"
  using assms handle_ignores_console [OF assms]
  by (simp add: getShellyStatus_def log_error_def split: response.split option.split)

lemma polling_ignores_console:
  assumes "acc w = acc w'" "storage w = storage w'" "display w = display w'"
  shows "acc (polling ps w) = acc (polling ps w')
       \<and> storage (polling ps w) = storage (polling ps w')
       \<and> display (polling ps w) = display (polling ps w')"
  using assms
proof (induction ps arbitrary: w w')
  case Nil
  then show ?case by simp
next
  case (Cons x ps)
  obtain e r where x: "x = (e, r)" by (cases x)
  from getShellyStatus_ignores_console [OF Cons.prems, of e r]
  have "acc (polling ps (getShellyStatus e r w)) = acc (polling ps (getShellyStatus e r w'))
      \<and> storage (polling ps (getShellyStatus e r w)) = storage (polling ps (getShellyStatus e r w'))
      \<and> display (polling ps (getShellyStatus e r w)) = display (polling ps (getShellyStatus e r w'))"
    by (intro Cons.IH) simp_all
  then show ?case by (simp add: x)
qed

subsection \<open>The date printed by toISODate is the UTC calendar date\<close>































subsection \<open>The day of the state\<close>




subsection \<open>One integration step\<close>

text \<open>
  Claim C2. When the state has a previous timestamp \<open>t\<close> and the call does not start a
  new day, the energy added is \<open>lastPower \<times> elapsedHours / 1000\<close>, where \<open>lastPower\<close> is
  the power stored by the previous call and \<open>elapsedHours\<close> is \<open>(now - t) / 3600000\<close>:
  one of the two totals grows by exactly that amount and the other keeps its value. The
  power \<open>pw\<close> reported by this call is not used for the interval: with any other power
  \<open>pw'\<close> the two totals come out the same. Numbers are exact reals.
\<close>

theorem delta_from_previous_power:
  assumes "lastTimestamp (acc w) = Some t" and "\<not> new_day e (acc w)"
  shows
    "(let delta = lastPower (acc w) * (real_of_int (now_ms e - t) / 3600000) / 1000;
          s' = acc (handleNewPowerMeasurement e pw w)
      in (picoEnergy s' = picoEnergy (acc w) + delta \<and> llanoEnergy s' = llanoEnergy (acc w)
          \<or> picoEnergy s' = picoEnergy (acc w) \<and> llanoEnergy s' = llanoEnergy (acc w) + delta)
         \<and> picoEnergy (acc (handleNewPowerMeasurement e pw' w)) = picoEnergy s'
         \<and> llanoEnergy (acc (handleNewPowerMeasurement e pw' w)) = llanoEnergy s')"
  using assms
  by (simp add: acc_handle handle_state_integrates energyDelta_def Let_def)

text \<open>
  The scenario of the specification: previous sample at 17:00 with 1000 W, new sample at
  17:30 of the same day. The delta is 0.5 kWh, it goes to the peak total, and the new
  reading (250 W or 9999 W) does not change it.
\<close>

theorem delta_from_previous_power_witness:
  "lastTimestamp (acc (running 61200000 1000 0 0)) = Some 61200000
   \<and> \<not> new_day (host_at 63000000) (acc (running 61200000 1000 0 0))
   \<and> getHours (host_at 63000000) 61200000 = 17
   \<and> picoEnergy (acc (handleNewPowerMeasurement (host_at 63000000) 250 (running 61200000 1000 0 0))) = 1 / 2
   \<and> llanoEnergy (acc (handleNewPowerMeasurement (host_at 63000000) 250 (running 61200000 1000 0 0))) = 0
   \<and> picoEnergy (acc (handleNewPowerMeasurement (host_at 63000000) 9999 (running 61200000 1000 0 0))) = 1 / 2"
proof -
  have same: "toISODate 61200000 = toISODate 63000000"
    by code_simp
  have h1: "lastTimestamp (acc (running 61200000 1000 0 0)) = Some 61200000"
    by (simp add: running_def)
  have h2: "\<not> new_day (host_at 63000000) (acc (running 61200000 1000 0 0))"
    by (simp add: new_day_def running_def host_at_def same)
  have hour: "getHours (host_at 63000000) 61200000 = 17"
    by (simp add: getHours_def host_at_def)
  have llano: "llanoEnergy (acc (handleNewPowerMeasurement (host_at 63000000) 250 (running 61200000 1000 0 0))) = 0"
    by (simp add: acc_handle handle_state_integrates [OF h1 h2] hour) (simp add: running_def)
  from delta_from_previous_power [OF h1 h2, of 250 9999] h1 h2 hour llano
  show ?thesis
    by (simp add: Let_def) (simp add: running_def host_at_def)
qed



subsection \<open>Day rollover\<close>




subsection \<open>The first sample\<close>

text \<open>
  Claim C9, as amended. On a state with no previous timestamp the call adds no energy
  delta: each total keeps its value (or is zeroed, when the call starts a new day). The
  fields the call writes are \<open>lastTimestamp\<close>, \<open>lastPower\<close> and also \<open>day\<close>, which is set
  to today's date.
\<close>

theorem first_sample_adds_no_energy:
  assumes "lastTimestamp (acc w) = None"
  shows
    "(let s' = acc (handleNewPowerMeasurement e pw w)
      in picoEnergy s' = (if new_day e (acc w) then 0 else picoEnergy (acc w))
         \<and> llanoEnergy s' = (if new_day e (acc w) then 0 else llanoEnergy (acc w))
         \<and> lastTimestamp s' = Some (now_ms e) \<and> lastPower s' = pw
         \<and> day s' = Some (toISODate (date_ms e)))"
  using assms
  by (simp add: acc_handle handle_state_first resetIfNewDay_def new_day_def Let_def)

text \<open>The first sample ever, at 17:00 on 1970-01-01 with 1000 W.\<close>

theorem first_sample_adds_no_energy_witness:
  "lastTimestamp (acc (initial_world Absent)) = None
   \<and> \<not> new_day (host_at 61200000) (acc (initial_world Absent))
   \<and> picoEnergy (acc (handleNewPowerMeasurement (host_at 61200000) 1000 (initial_world Absent))) = 0
   \<and> llanoEnergy (acc (handleNewPowerMeasurement (host_at 61200000) 1000 (initial_world Absent))) = 0
   \<and> lastTimestamp (acc (handleNewPowerMeasurement (host_at 61200000) 1000 (initial_world Absent))) = Some 61200000
   \<and> lastPower (acc (handleNewPowerMeasurement (host_at 61200000) 1000 (initial_world Absent))) = 1000
   \<and> day (acc (handleNewPowerMeasurement (host_at 61200000) 1000 (initial_world Absent))) = Some ''1970-01-01''"
proof -
  have d: "toISODate 61200000 = ''1970-01-01''"
    by code_simp
  have h: "lastTimestamp (acc (initial_world Absent)) = None"
    by (simp add: initial_world_def initial_state_def)
  have same: "\<not> new_day (host_at 61200000) (acc (initial_world Absent))"
    by (simp add: new_day_def truthy_def initial_world_def initial_state_def)
  have zero: "picoEnergy (acc (initial_world Absent)) = 0" "llanoEnergy (acc (initial_world Absent)) = 0"
    by (simp_all add: initial_world_def initial_state_def)
  from first_sample_adds_no_energy [OF h, of "host_at 61200000" 1000] h same zero
  show ?thesis
    by (simp add: Let_def host_at_def d)
qed

text \<open>
  Claim C9 as stated says that only \<open>lastPower\<close> and \<open>lastTimestamp\<close> are updated. On the
  initial state the call also changes \<open>day\<close>, from \<open>null\<close> to today's date.
\<close>

theorem first_sample_sets_day_counterexample:
  "lastTimestamp (acc (initial_world Absent)) = None
   \<and> day (acc (handleNewPowerMeasurement (host_at 61200000) 1000 (initial_world Absent)))
       \<noteq> day (acc (initial_world Absent))"
  by (simp add: acc_handle day_handle_state initial_world_def initial_state_def)

subsection \<open>Sequences of samples\<close>

text \<open>
  Claim C1, as amended. Start from the zero-initialised state and apply any sequence of
  calls of \<open>handleNewPowerMeasurement\<close>. If every reported power is non-negative and the
  readings of \<open>Date.now()\<close> never decrease from one call to the next, then \<open>picoEnergy\<close>
  and \<open>llanoEnergy\<close> are non-negative after every call (after every prefix of the
  sequence).
\<close>

theorem totals_nonneg_for_nonneg_power_and_monotone_clock:
  assumes "\<forall>x \<in> set samples. 0 \<le> snd x"
    and "sorted (map (\<lambda>x. now_ms (fst x)) samples)"
  shows "0 \<le> picoEnergy (acc (handle_all (take n samples) (initial_world it)))
       \<and> 0 \<le> llanoEnergy (acc (handle_all (take n samples) (initial_world it)))"
proof -
  have a: "\<forall>x \<in> set (take n samples). 0 \<le> snd x"
    using assms(1) by (meson in_set_takeD)
  have b: "sorted (map (\<lambda>x. now_ms (fst x)) (take n samples))"
    using assms(2) by (simp add: take_map [symmetric] sorted_wrt_take)
  show ?thesis
    by (rule nonneg_all [OF _ _ _ _ a b]) (simp_all add: initial_world_def initial_state_def)
qed

text \<open>The first three samples of \<open>evening\<close>: the peak total is 2.5 kWh.\<close>

theorem totals_nonneg_witness:
  "list_all (\<lambda>x. 0 \<le> snd x) evening
   \<and> sorted (map (\<lambda>x. now_ms (fst x)) evening)
   \<and> 0 \<le> picoEnergy (acc (handle_all (take 3 evening) (initial_world Absent)))
   \<and> 0 \<le> llanoEnergy (acc (handle_all (take 3 evening) (initial_world Absent)))
   \<and> picoEnergy (acc (handle_all (take 3 evening) (initial_world Absent))) = 5 / 2"
proof -
  have h1: "\<forall>x \<in> set evening. 0 \<le> snd x"
    by (simp add: evening_def)
  have h2: "sorted (map (\<lambda>x. now_ms (fst x)) evening)"
    by (simp add: evening_def host_at_def)
  have v: "picoEnergy (acc (handle_all (take 3 evening) (initial_world Absent))) = 5 / 2"
    by code_simp
  from totals_nonneg_for_nonneg_power_and_monotone_clock [OF h1 h2, of 3 Absent] h1 h2 v
  show ?thesis
    by (simp add: list_all_iff)
qed

text \<open>
  Claim C1 as stated allows arbitrary powers and timestamps. The script clamps neither:
  a negative reading held for an hour, or a positive reading over an interval whose end
  the clock puts before its start, makes the off-peak total -1 kWh.
\<close>

theorem totals_negative_counterexample:
  "\<not> 0 \<le> llanoEnergy (acc (handle_all negative_reading (initial_world Absent)))
   \<and> \<not> 0 \<le> llanoEnergy (acc (handle_all clock_set_back (initial_world Absent)))"
proof -
  have a: "llanoEnergy (acc (handle_all negative_reading (initial_world Absent))) = - 1"
    by code_simp
  have b: "llanoEnergy (acc (handle_all clock_set_back (initial_world Absent))) = - 1"
    by code_simp
  show ?thesis by (simp add: a b)
qed

text \<open>
  Claim C7. For every sequence of samples whose calls all read the same calendar date
  (so no rollover happens), processed from the zero-initialised state, the final
  \<open>picoEnergy + llanoEnergy\<close> is the sum of the per-interval deltas of the specification
  over that sequence: every delta is counted once, in one of the two totals. Numbers
  are exact reals.
\<close>

theorem energy_conserved_within_one_day:
  assumes "\<forall>x \<in> set samples. toISODate (date_ms (fst x)) = d"
  shows "picoEnergy (acc (handle_all samples (initial_world it)))
         + llanoEnergy (acc (handle_all samples (initial_world it)))
         = sum_list (spec_interval_deltas (map sample_of samples))"
proof (cases samples)
  case Nil
  then show ?thesis by (simp add: initial_world_def initial_state_def)
next
  case (Cons x rest)
  obtain e pw where x: "x = (e, pw)" by (cases x)
  let ?w = "handleNewPowerMeasurement e pw (initial_world it)"
  have none: "lastTimestamp (acc (initial_world it)) = None"
    by (simp add: initial_world_def initial_state_def)
  have first: "acc ?w = initial_state\<lparr>day := Some (toISODate (date_ms e)),
                 lastTimestamp := Some (now_ms e), lastPower := pw\<rparr>"
    by (simp add: acc_handle handle_state_first [OF none])
       (simp add: initial_world_def initial_state_def resetIfNewDay_def truthy_def)
  have today: "toISODate (date_ms e) = d"
    using assms Cons x by simp
  have lt: "lastTimestamp (acc ?w) = Some (now_ms e)" and dy: "day (acc ?w) = Some d"
    by (simp_all add: first today)
  have rest: "\<forall>y \<in> set rest. toISODate (date_ms (fst y)) = d"
    using assms Cons by simp
  have zero: "total ?w = 0" and lp: "lastPower (acc ?w) = pw"
    by (simp_all add: total_def first initial_state_def)
  have "total (handle_all rest ?w) =
        sum_list (spec_interval_deltas ((now_ms e, pw) # map sample_of rest))"
    using same_day_total [OF lt dy rest] zero lp by simp
  then show ?thesis
    by (simp add: Cons x total_def sample_of_pair)
qed

text \<open>The four samples of \<open>evening\<close>: deltas 0.5, 2 and 2 kWh, and totals that sum to 4.5 kWh.\<close>

theorem energy_conserved_witness:
  "list_all (\<lambda>x. toISODate (date_ms (fst x)) = ''1970-01-01'') evening
   \<and> spec_interval_deltas (map sample_of evening) = [1 / 2, 2, 2]
   \<and> picoEnergy (acc (handle_all evening (initial_world Absent)))
       + llanoEnergy (acc (handle_all evening (initial_world Absent))) = 9 / 2"
proof -
  have h: "\<forall>x \<in> set evening. toISODate (date_ms (fst x)) = ''1970-01-01''"
    by code_simp
  have d: "spec_interval_deltas (map sample_of evening) = [1 / 2, 2, 2]"
    by (simp add: evening_def sample_of_pair host_at_def)
  from energy_conserved_within_one_day [OF h, of Absent] h d
  show ?thesis
    by (simp add: list_all_iff)
qed

subsection \<open>The usage ratio\<close>

text \<open>
  Claim C5, as amended. The usage ratio that \<open>updateMetrics\<close> computes is
  \<open>llanoEnergy / (picoEnergy + llanoEnergy) \<times> 100\<close> whenever the denominator is positive,
  and 0 whenever the denominator is zero or negative (the guard of line 58 is
  \<open>total > 0\<close>). This is the number before \<open>toFixed(1)\<close>.
\<close>

theorem indice_formula:
  "\<exists>m. display (updateMetrics w) = Some m
     \<and> (0 < picoEnergy (acc w) + llanoEnergy (acc w) \<longrightarrow>
          card_indice m = llanoEnergy (acc w) / (picoEnergy (acc w) + llanoEnergy (acc w)) * 100)
     \<and> (picoEnergy (acc w) + llanoEnergy (acc w) \<le> 0 \<longrightarrow> card_indice m = 0)"
  by (simp add: updateMetrics_def Let_def)

text \<open>With 2.5 kWh peak and 2 kWh off-peak the ratio is 400/9; on the initial state it is 0.\<close>

theorem indice_formula_witness:
  "0 < picoEnergy (acc (running 81000000 0 (5 / 2) 2)) + llanoEnergy (acc (running 81000000 0 (5 / 2) 2))
   \<and> (\<exists>m. display (updateMetrics (running 81000000 0 (5 / 2) 2)) = Some m \<and> card_indice m = 400 / 9)
   \<and> picoEnergy (acc (initial_world Absent)) + llanoEnergy (acc (initial_world Absent)) \<le> 0
   \<and> (\<exists>m. display (updateMetrics (initial_world Absent)) = Some m \<and> card_indice m = 0)"
proof -
  have p: "0 < picoEnergy (acc (running 81000000 0 (5 / 2) 2)) + llanoEnergy (acc (running 81000000 0 (5 / 2) 2))"
    by (simp add: running_def)
  have v: "llanoEnergy (acc (running 81000000 0 (5 / 2) 2))
           / (picoEnergy (acc (running 81000000 0 (5 / 2) 2)) + llanoEnergy (acc (running 81000000 0 (5 / 2) 2))) * 100
           = 400 / 9"
    by (simp add: running_def)
  have z: "picoEnergy (acc (initial_world Absent)) + llanoEnergy (acc (initial_world Absent)) \<le> 0"
    by (simp add: initial_world_def initial_state_def)
  from indice_formula [of "running 81000000 0 (5 / 2) 2"] p v
  have a: "\<exists>m. display (updateMetrics (running 81000000 0 (5 / 2) 2)) = Some m \<and> card_indice m = 400 / 9"
    by auto
  from indice_formula [of "initial_world Absent"] z
  have b: "\<exists>m. display (updateMetrics (initial_world Absent)) = Some m \<and> card_indice m = 0"
    by auto
  from p a z b show ?thesis by blast
qed

text \<open>
  Claim C5 as stated gives the formula whenever the denominator is nonzero. After
  \<open>negative_reading\<close> the totals are 0 and -1 kWh: the denominator is -1, the formula
  gives 100, and the card gets 0.
\<close>

theorem indice_negative_total_counterexample:
  "picoEnergy (acc (handle_all negative_reading (initial_world Absent)))
     + llanoEnergy (acc (handle_all negative_reading (initial_world Absent))) \<noteq> 0
   \<and> llanoEnergy (acc (handle_all negative_reading (initial_world Absent)))
       / (picoEnergy (acc (handle_all negative_reading (initial_world Absent)))
          + llanoEnergy (acc (handle_all negative_reading (initial_world Absent)))) * 100 = 100
   \<and> display (updateMetrics (handle_all negative_reading (initial_world Absent)))
       = Some \<lparr>card_total = - 1, card_pico = 0, card_llano = - 1, card_indice = 0\<rparr>"
proof -
  have a: "llanoEnergy (acc (handle_all negative_reading (initial_world Absent))) = - 1"
    by code_simp
  have b: "picoEnergy (acc (handle_all negative_reading (initial_world Absent))) = 0"
    by code_simp
  show ?thesis
    by (simp add: updateMetrics_def Let_def a b)
qed

subsection \<open>Loading the persisted state\<close>




subsection \<open>A failed poll\<close>

text \<open>
  Claim C8. When a poll fails (the request is rejected, the body is not JSON, or the
  first meter is \<open>null\<close>), \<open>getShellyStatus\<close> logs the error and does nothing else: no
  sample is recorded, and the state, the stored item and the cards are unchanged. The
  polls that follow give the same state, stored item and cards as if the failed poll
  had not happened.
\<close>

theorem failed_poll_only_logs:
  assumes "r = FetchRejects \<or> r = BodyNotJson \<or> (\<exists>ms. r = Body (Some (MeterNull # ms)))"
  shows "getShellyStatus e r w = w\<lparr>console := console w @ [Error ''Error fetching Shelly status:'']\<rparr>
       \<and> acc (polling ((e, r) # rest) w) = acc (polling rest w)
       \<and> storage (polling ((e, r) # rest) w) = storage (polling rest w)
       \<and> display (polling ((e, r) # rest) w) = display (polling rest w)"
proof -
  have g: "getShellyStatus e r w = w\<lparr>console := console w @ [Error ''Error fetching Shelly status:'']\<rparr>"
    using assms by (auto simp: getShellyStatus_def log_error_def extract_power_def)
  have "acc (polling rest (getShellyStatus e r w)) = acc (polling rest w)
      \<and> storage (polling rest (getShellyStatus e r w)) = storage (polling rest w)
      \<and> display (polling rest (getShellyStatus e r w)) = display (polling rest w)"
    by (rule polling_ignores_console) (simp_all add: g)
  with g show ?thesis by simp
qed

text \<open>
  After a sample at 17:00 with 1000 W, the poll of 17:30 fails and the poll of 18:00
  reports 500 W: the failed poll only logs, and the interval from 17:00 to 18:00 is
  integrated with 1000 W.
\<close>

theorem failed_poll_only_logs_witness:
  "acc (getShellyStatus (host_at 63000000) FetchRejects (running 61200000 1000 0 0))
     = acc (running 61200000 1000 0 0)
   \<and> storage (getShellyStatus (host_at 63000000) FetchRejects (running 61200000 1000 0 0)) = Absent
   \<and> console (getShellyStatus (host_at 63000000) FetchRejects (running 61200000 1000 0 0))
       = [Error ''Error fetching Shelly status:'']
   \<and> acc (polling [(host_at 63000000, FetchRejects), (host_at 64800000, Body (Some [Meter (Some 500)]))]
            (running 61200000 1000 0 0))
       = acc (polling [(host_at 64800000, Body (Some [Meter (Some 500)]))] (running 61200000 1000 0 0))
   \<and> picoEnergy (acc (polling [(host_at 63000000, FetchRejects),
                               (host_at 64800000, Body (Some [Meter (Some 500)]))]
                              (running 61200000 1000 0 0))) = 1"
proof -
  let ?w = "running 61200000 1000 0 0"
  let ?next = "[(host_at 64800000, Body (Some [Meter (Some 500)]))]"
  have h: "FetchRejects = FetchRejects \<or> FetchRejects = BodyNotJson
           \<or> (\<exists>ms. FetchRejects = Body (Some (MeterNull # ms)))"
    by simp
  have v: "picoEnergy (acc (polling ?next ?w)) = 1"
    by code_simp
  note fact = failed_poll_only_logs [OF h, of "host_at 63000000" ?w ?next]
  have g: "getShellyStatus (host_at 63000000) FetchRejects ?w
           = ?w\<lparr>console := console ?w @ [Error ''Error fetching Shelly status:'']\<rparr>"
    by (rule fact [THEN conjunct1])
  have p: "acc (polling ((host_at 63000000, FetchRejects) # ?next) ?w) = acc (polling ?next ?w)"
    by (rule fact [THEN conjunct2, THEN conjunct1])
  have c1: "acc (getShellyStatus (host_at 63000000) FetchRejects ?w) = acc ?w"
    by (simp add: g)
  have c2: "storage (getShellyStatus (host_at 63000000) FetchRejects ?w) = Absent"
    by (simp add: g) (simp add: running_def)
  have c3: "console (getShellyStatus (host_at 63000000) FetchRejects ?w)
            = [Error ''Error fetching Shelly status:'']"
    by (simp add: g) (simp add: running_def)
  have c5: "picoEnergy (acc (polling ((host_at 63000000, FetchRejects) # ?next) ?w)) = 1"
    by (simp only: p v)
  from c1 c2 c3 p c5 show ?thesis
    by (intro conjI)
qed

end
